theory Spec2Isabelle
  imports Main "HOL-Library.Multiset" "HOL-Library.Sublist"
begin

section \<open>The relational schema (shared/schema.ts)\<close>

text \<open>
  The three tables of the plot-structure subsystem are modelled as lists of rows, in the
  order in which a sequential scan of the table yields them. Each \<open>serial\<close> primary key has
  a counter holding the last value handed out. A \<open>Date\<close> is a number of milliseconds;
  \<open>new Date()\<close> and the store's \<open>now()\<close> are the parameter \<open>now\<close> of the operation that
  evaluates them. A column that is not declared \<open>notNull\<close> holds an \<open>option\<close>, with
  \<open>None\<close> for SQL \<open>NULL\<close>. A character of a string is one \<open>char\<close>.
\<close>

type_synonym timestamp = nat

text \<open>
  The \<open>sections\<close> column of a template is \<open>jsonb\<close>; the built-in templates store the text
  produced by \<open>JSON.stringify\<close>. The model keeps what \<open>JSON.parse\<close> makes of that text:
  \<open>Unparseable\<close> when it throws, and otherwise the array of entries, where a property is
  \<open>None\<close> when the entry does not have it.
\<close>

record section_entry =
  e_key :: "string option"
  e_title :: "string option"
  e_description :: "string option"
  e_order :: "int option"

datatype sections_json = Unparseable | Entries "section_entry list"

record PlotStructureTemplate =
  tpl_id :: int
  tpl_templateType :: string
  tpl_name :: string
  tpl_description :: "string option"
  tpl_sections :: sections_json
  tpl_createdAt :: "timestamp option"
  tpl_updatedAt :: "timestamp option"
  tpl_isDefault :: "bool option"

text \<open>
  An insert payload gives the picked columns; a column that is neither \<open>notNull\<close> nor
  required may be absent (\<open>None\<close>), \<open>null\<close> (\<open>Some None\<close>) or a value.
\<close>

record InsertPlotStructureTemplate =
  new_tpl_templateType :: string
  new_tpl_name :: string
  new_tpl_description :: "string option option"
  new_tpl_sections :: sections_json
  new_tpl_isDefault :: "bool option option"

record PlotStructure =
  ps_id :: int
  ps_projectId :: int
  ps_templateId :: int
  ps_name :: string
  ps_description :: "string option"
  ps_parentId :: "int option"
  ps_order :: "int option"
  ps_createdAt :: "timestamp option"
  ps_updatedAt :: "timestamp option"

record InsertPlotStructure =
  new_ps_projectId :: int
  new_ps_templateId :: int
  new_ps_name :: string
  new_ps_description :: "string option option"
  new_ps_parentId :: "int option option"
  new_ps_order :: "int option option"

text \<open>\<open>Partial<PlotStructure>\<close>: every column of the row may be present or absent.\<close>

record PartialPlotStructure =
  upd_ps_id :: "int option"
  upd_ps_projectId :: "int option"
  upd_ps_templateId :: "int option"
  upd_ps_name :: "string option"
  upd_ps_description :: "string option option"
  upd_ps_parentId :: "int option option"
  upd_ps_order :: "int option option"
  upd_ps_createdAt :: "timestamp option option"
  upd_ps_updatedAt :: "timestamp option option"

record PlotStructureSection =
  sec_id :: int
  sec_plotStructureId :: int
  sec_sectionKey :: string
  sec_title :: string
  sec_content :: "string option"
  sec_order :: int
  sec_createdAt :: "timestamp option"
  sec_updatedAt :: "timestamp option"

record InsertPlotStructureSection =
  new_sec_plotStructureId :: int
  new_sec_sectionKey :: string
  new_sec_title :: string
  new_sec_content :: "string option option"
  new_sec_order :: int

record PartialPlotStructureSection =
  upd_sec_id :: "int option"
  upd_sec_plotStructureId :: "int option"
  upd_sec_sectionKey :: "string option"
  upd_sec_title :: "string option"
  upd_sec_content :: "string option option"
  upd_sec_order :: "int option"
  upd_sec_createdAt :: "timestamp option option"
  upd_sec_updatedAt :: "timestamp option option"

record database =
  plotStructureTemplates :: "PlotStructureTemplate list"
  plotStructureTemplates_seq :: int
  plotStructures :: "PlotStructure list"
  plotStructures_seq :: int
  plotStructureSections :: "PlotStructureSection list"
  plotStructureSections_seq :: int

section \<open>What the store rejects\<close>

text \<open>
  A statement that the store rejects makes the \<open>await\<close> throw. The rejections that the
  schema declares are modelled: a string longer than its \<open>varchar\<close> length, a value outside
  the range of an \<open>integer\<close> column, a parameter of an \<open>integer\<close> comparison that is
  not an integer, and a second row with the same primary key. A rejected statement leaves
  every table as it was. The counters themselves are not bounded.
\<close>

datatype db_error = StringTooLong | IntegerOutOfRange | InvalidInteger | UniqueViolation

definition int4 :: "int \<Rightarrow> bool" where
  "int4 n \<longleftrightarrow> - 2147483648 \<le> n \<and> n \<le> 2147483647"

fun int4_opt :: "int option \<Rightarrow> bool" where
  "int4_opt None = True"
| "int4_opt (Some n) = int4 n"

definition check_PlotStructureTemplate :: "PlotStructureTemplate \<Rightarrow> db_error option" where
  "check_PlotStructureTemplate r =
     (if length (tpl_templateType r) > 50 then Some StringTooLong else None)"

definition check_PlotStructure :: "PlotStructure \<Rightarrow> db_error option" where
  "check_PlotStructure r =
     (if int4 (ps_projectId r) \<and> int4 (ps_templateId r) \<and> int4_opt (ps_parentId r)
         \<and> int4_opt (ps_order r)
      then None else Some IntegerOutOfRange)"

definition check_PlotStructureSection :: "PlotStructureSection \<Rightarrow> db_error option" where
  "check_PlotStructureSection r =
     (if length (sec_sectionKey r) > 100 then Some StringTooLong
      else if int4 (sec_plotStructureId r) \<and> int4 (sec_order r) then None
      else Some IntegerOutOfRange)"

text \<open>The value of an optional column of a payload: its default when absent.\<close>

fun or_default :: "'a option \<Rightarrow> 'a option option \<Rightarrow> 'a option" where
  "or_default d None = d"
| "or_default d (Some v) = v"

text \<open>The value of a column after \<open>set\<close>: the payload's when present.\<close>

fun or_keep :: "'a \<Rightarrow> 'a option \<Rightarrow> 'a" where
  "or_keep old None = old"
| "or_keep old (Some v) = v"

text \<open>\<open>const [row] = await ...\<close>: the first row of the result, or \<open>undefined\<close>.\<close>

fun first_row :: "'a list \<Rightarrow> 'a option" where
  "first_row [] = None"
| "first_row (r # rs) = Some r"

section \<open>DatabaseStorage: plot structure sections (server/storage.ts)\<close>


text \<open>
  \<open>select ... where plotStructureId = ? order by order\<close>. SQL leaves the order of rows with
  equal keys open; the model keeps them in scan order.
\<close>

definition getPlotStructureSections :: "int \<Rightarrow> database \<Rightarrow> PlotStructureSection list" where
  "getPlotStructureSections plotStructureId db =
     sort_key sec_order
       (filter (\<lambda>r. sec_plotStructureId r = plotStructureId) (plotStructureSections db))"

definition createPlotStructureSection ::
  "timestamp \<Rightarrow> InsertPlotStructureSection \<Rightarrow> database
     \<Rightarrow> db_error + (PlotStructureSection \<times> database)" where
  "createPlotStructureSection now section db =
     (let newSection = \<lparr> sec_id = plotStructureSections_seq db + 1,
            sec_plotStructureId = new_sec_plotStructureId section,
            sec_sectionKey = new_sec_sectionKey section,
            sec_title = new_sec_title section,
            sec_content = or_default (Some []) (new_sec_content section),
            sec_order = new_sec_order section,
            sec_createdAt = Some now,
            sec_updatedAt = Some now \<rparr>
      in case check_PlotStructureSection newSection of
           Some e \<Rightarrow> Inl e
         | None \<Rightarrow>
             if sec_id newSection \<in> set (map sec_id (plotStructureSections db))
             then Inl UniqueViolation
             else Inr (newSection,
                       db\<lparr> plotStructureSections := plotStructureSections db @ [newSection],
                           plotStructureSections_seq := sec_id newSection \<rparr>))"

definition set_PlotStructureSection ::
  "timestamp \<Rightarrow> PartialPlotStructureSection \<Rightarrow> PlotStructureSection \<Rightarrow> PlotStructureSection" where
  "set_PlotStructureSection now sectionUpdate r =
     \<lparr> sec_id = or_keep (sec_id r) (upd_sec_id sectionUpdate),
       sec_plotStructureId = or_keep (sec_plotStructureId r) (upd_sec_plotStructureId sectionUpdate),
       sec_sectionKey = or_keep (sec_sectionKey r) (upd_sec_sectionKey sectionUpdate),
       sec_title = or_keep (sec_title r) (upd_sec_title sectionUpdate),
       sec_content = or_keep (sec_content r) (upd_sec_content sectionUpdate),
       sec_order = or_keep (sec_order r) (upd_sec_order sectionUpdate),
       sec_createdAt = or_keep (sec_createdAt r) (upd_sec_createdAt sectionUpdate),
       sec_updatedAt = Some now \<rparr>"

text \<open>
  \<open>update ... set {...sectionUpdate, updatedAt: new Date()} where id = ? returning *\<close>:
  every row with the id gets the payload's columns, \<open>updatedAt\<close> last; the statement is
  rejected when a new row breaks a column's type or takes the id of a row that stays.
\<close>

definition updatePlotStructureSection ::
  "timestamp \<Rightarrow> int \<Rightarrow> PartialPlotStructureSection \<Rightarrow> database
     \<Rightarrow> db_error + (PlotStructureSection option \<times> database)" where
  "updatePlotStructureSection now sid sectionUpdate db =
     (let rows = plotStructureSections db;
          returning = map (set_PlotStructureSection now sectionUpdate)
                        (filter (\<lambda>r. sec_id r = sid) rows);
          kept = filter (\<lambda>r. sec_id r \<noteq> sid) rows
      in case List.map_filter check_PlotStructureSection returning of
           e # _ \<Rightarrow> Inl e
         | [] \<Rightarrow>
             if list_ex (\<lambda>u. sec_id u \<in> set (map sec_id kept)) returning
             then Inl UniqueViolation
             else Inr (first_row returning,
                       db\<lparr> plotStructureSections :=
                             map (\<lambda>r. if sec_id r = sid
                                       then set_PlotStructureSection now sectionUpdate r else r)
                                 rows \<rparr>))"

text \<open>
  \<open>db.delete(...).where(...)\<close> without \<open>returning\<close> resolves to the driver's result object,
  which carries the number of rows deleted. \<open>!!result\<close> is the truthiness of that object, and
  every object is truthy.
\<close>

record QueryResult =
  rowCount :: nat

definition truthy_object :: "QueryResult \<Rightarrow> bool" where
  "truthy_object result = True"

definition deletePlotStructureSection :: "int \<Rightarrow> database \<Rightarrow> bool \<times> database" where
  "deletePlotStructureSection sid db =
     (let result = \<lparr> rowCount = length (filter (\<lambda>r. sec_id r = sid) (plotStructureSections db)) \<rparr>
      in (truthy_object result,
          db\<lparr> plotStructureSections :=
                filter (\<lambda>r. sec_id r \<noteq> sid) (plotStructureSections db) \<rparr>))"

section \<open>DatabaseStorage: plot structures (server/storage.ts)\<close>

definition getPlotStructure :: "int \<Rightarrow> database \<Rightarrow> PlotStructure option" where
  "getPlotStructure sid db = first_row (filter (\<lambda>r. ps_id r = sid) (plotStructures db))"

text \<open>\<open>select ... where projectId = ?\<close>, with no \<open>orderBy\<close>: the rows in scan order.\<close>

definition getProjectPlotStructures :: "int \<Rightarrow> database \<Rightarrow> PlotStructure list" where
  "getProjectPlotStructures projectId db =
     filter (\<lambda>r. ps_projectId r = projectId) (plotStructures db)"

definition createPlotStructure ::
  "timestamp \<Rightarrow> InsertPlotStructure \<Rightarrow> database \<Rightarrow> db_error + (PlotStructure \<times> database)" where
  "createPlotStructure now structure db =
     (let newStructure = \<lparr> ps_id = plotStructures_seq db + 1,
            ps_projectId = new_ps_projectId structure,
            ps_templateId = new_ps_templateId structure,
            ps_name = new_ps_name structure,
            ps_description = or_default None (new_ps_description structure),
            ps_parentId = or_default None (new_ps_parentId structure),
            ps_order = or_default (Some 0) (new_ps_order structure),
            ps_createdAt = Some now,
            ps_updatedAt = Some now \<rparr>
      in case check_PlotStructure newStructure of
           Some e \<Rightarrow> Inl e
         | None \<Rightarrow>
             if ps_id newStructure \<in> set (map ps_id (plotStructures db))
             then Inl UniqueViolation
             else Inr (newStructure,
                       db\<lparr> plotStructures := plotStructures db @ [newStructure],
                           plotStructures_seq := ps_id newStructure \<rparr>))"

definition set_PlotStructure ::
  "timestamp \<Rightarrow> PartialPlotStructure \<Rightarrow> PlotStructure \<Rightarrow> PlotStructure" where
  "set_PlotStructure now structureUpdate r =
     \<lparr> ps_id = or_keep (ps_id r) (upd_ps_id structureUpdate),
       ps_projectId = or_keep (ps_projectId r) (upd_ps_projectId structureUpdate),
       ps_templateId = or_keep (ps_templateId r) (upd_ps_templateId structureUpdate),
       ps_name = or_keep (ps_name r) (upd_ps_name structureUpdate),
       ps_description = or_keep (ps_description r) (upd_ps_description structureUpdate),
       ps_parentId = or_keep (ps_parentId r) (upd_ps_parentId structureUpdate),
       ps_order = or_keep (ps_order r) (upd_ps_order structureUpdate),
       ps_createdAt = or_keep (ps_createdAt r) (upd_ps_createdAt structureUpdate),
       ps_updatedAt = Some now \<rparr>"

definition updatePlotStructure ::
  "timestamp \<Rightarrow> int \<Rightarrow> PartialPlotStructure \<Rightarrow> database
     \<Rightarrow> db_error + (PlotStructure option \<times> database)" where
  "updatePlotStructure now sid structureUpdate db =
     (let rows = plotStructures db;
          returning = map (set_PlotStructure now structureUpdate)
                        (filter (\<lambda>r. ps_id r = sid) rows);
          kept = filter (\<lambda>r. ps_id r \<noteq> sid) rows
      in case List.map_filter check_PlotStructure returning of
           e # _ \<Rightarrow> Inl e
         | [] \<Rightarrow>
             if list_ex (\<lambda>u. ps_id u \<in> set (map ps_id kept)) returning
             then Inl UniqueViolation
             else Inr (first_row returning,
                       db\<lparr> plotStructures :=
                             map (\<lambda>r. if ps_id r = sid
                                       then set_PlotStructure now structureUpdate r else r)
                                 rows \<rparr>))"

text \<open>\<open>delete from plot_structures where id = ?\<close>: no other table is named.\<close>

definition deletePlotStructure :: "int \<Rightarrow> database \<Rightarrow> bool \<times> database" where
  "deletePlotStructure sid db =
     (let result = \<lparr> rowCount = length (filter (\<lambda>r. ps_id r = sid) (plotStructures db)) \<rparr>
      in (truthy_object result,
          db\<lparr> plotStructures := filter (\<lambda>r. ps_id r \<noteq> sid) (plotStructures db) \<rparr>))"

section \<open>DatabaseStorage: templates, and seeding (server/init-plot-templates.ts)\<close>

definition getPlotStructureTemplate :: "int \<Rightarrow> database \<Rightarrow> PlotStructureTemplate option" where
  "getPlotStructureTemplate tid db =
     first_row (filter (\<lambda>r. tpl_id r = tid) (plotStructureTemplates db))"

definition getAllPlotStructureTemplates :: "database \<Rightarrow> PlotStructureTemplate list" where
  "getAllPlotStructureTemplates db = plotStructureTemplates db"

text \<open>\<open>db.insert(plotStructureTemplates).values(template)\<close>.\<close>

definition insert_plotStructureTemplates ::
  "timestamp \<Rightarrow> InsertPlotStructureTemplate \<Rightarrow> database
     \<Rightarrow> db_error + (PlotStructureTemplate \<times> database)" where
  "insert_plotStructureTemplates now template db =
     (let newTemplate = \<lparr> tpl_id = plotStructureTemplates_seq db + 1,
            tpl_templateType = new_tpl_templateType template,
            tpl_name = new_tpl_name template,
            tpl_description = or_default None (new_tpl_description template),
            tpl_sections = new_tpl_sections template,
            tpl_createdAt = Some now,
            tpl_updatedAt = Some now,
            tpl_isDefault = or_default (Some False) (new_tpl_isDefault template) \<rparr>
      in case check_PlotStructureTemplate newTemplate of
           Some e \<Rightarrow> Inl e
         | None \<Rightarrow>
             if tpl_id newTemplate \<in> set (map tpl_id (plotStructureTemplates db))
             then Inl UniqueViolation
             else Inr (newTemplate,
                       db\<lparr> plotStructureTemplates := plotStructureTemplates db @ [newTemplate],
                           plotStructureTemplates_seq := tpl_id newTemplate \<rparr>))"

text \<open>
  The loop \<open>for (const template of plotTemplates) await db.insert(...)\<close>: the first insert
  that throws ends the loop, with the rows inserted so far in the table.
\<close>

fun insert_each ::
  "timestamp \<Rightarrow> InsertPlotStructureTemplate list \<Rightarrow> database \<Rightarrow> db_error option \<times> database" where
  "insert_each now [] db = (None, db)"
| "insert_each now (template # rest) db =
     (case insert_plotStructureTemplates now template db of
        Inl e \<Rightarrow> (Some e, db)
      | Inr (row, db') \<Rightarrow> insert_each now rest db')"

text \<open>
  \<open>initPlotTemplates\<close>, with the list of built-in templates as a parameter. The \<open>catch\<close>
  only logs, so the function returns the store as the \<open>try\<close> block left it.
\<close>

definition initPlotTemplatesFrom ::
  "InsertPlotStructureTemplate list \<Rightarrow> timestamp \<Rightarrow> database \<Rightarrow> database" where
  "initPlotTemplatesFrom templates now db =
     (let existingTemplates = plotStructureTemplates db
      in if length existingTemplates = 0
         then snd (insert_each now templates db)
         else db)"

text \<open>The built-in templates (server/data/plot-templates.ts), in the order of the array.\<close>

definition freytag_template :: InsertPlotStructureTemplate where
  "freytag_template =
     \<lparr> new_tpl_templateType = ''freytag'',
       new_tpl_name = ''Freytag's Pyramid'',
       new_tpl_description = Some (Some ''A five-act dramatic structure that includes exposition, rising action, climax, falling action, and resolution.''),
       new_tpl_sections = Entries [
         \<lparr> e_key = Some ''exposition'',
           e_title = Some ''Exposition'',
           e_description = Some ''Introduce the setting, characters, and the basic conflict. Set the stage for what follows.'',
           e_order = Some 1 \<rparr>,
         \<lparr> e_key = Some ''rising_action'',
           e_title = Some ''Rising Action'',
           e_description = Some ''Series of events that build up tension and complications, leading toward the climax.'',
           e_order = Some 2 \<rparr>,
         \<lparr> e_key = Some ''climax'',
           e_title = Some ''Climax'',
           e_description = Some ''The turning point and moment of highest tension in the story. The protagonist faces the central conflict directly.'',
           e_order = Some 3 \<rparr>,
         \<lparr> e_key = Some ''falling_action'',
           e_title = Some ''Falling Action'',
           e_description = Some ''Events following the climax that show the consequences of decisions made during the climactic moment.'',
           e_order = Some 4 \<rparr>,
         \<lparr> e_key = Some ''resolution'',
           e_title = Some (''Resolution (D'' @ [CHR 0xE9] @ ''nouement)''),
           e_description = Some ''Final resolution of the story's conflicts. Loose ends are tied up and a new normal is established.'',
           e_order = Some 5 \<rparr>],
       new_tpl_isDefault = Some (Some True) \<rparr>"

definition hero_journey_template :: InsertPlotStructureTemplate where
  "hero_journey_template =
     \<lparr> new_tpl_templateType = ''hero_journey'',
       new_tpl_name = ''The Hero's Journey'',
       new_tpl_description = Some (Some ''Joseph Campbell's monomyth structure featuring a hero who goes on an adventure, faces challenges, wins victory, and returns transformed.''),
       new_tpl_sections = Entries [
         \<lparr> e_key = Some ''ordinary_world'',
           e_title = Some ''Ordinary World'',
           e_description = Some ''The hero's normal world before the adventure begins. Establishes the character's normal life and limitations.'',
           e_order = Some 1 \<rparr>,
         \<lparr> e_key = Some ''call_to_adventure'',
           e_title = Some ''Call to Adventure'',
           e_description = Some ''The hero is presented with a challenge, problem, or adventure to undertake.'',
           e_order = Some 2 \<rparr>,
         \<lparr> e_key = Some ''refusal_of_call'',
           e_title = Some ''Refusal of the Call'',
           e_description = Some ''The hero initially refuses the call due to fear, insecurity, or other obligations.'',
           e_order = Some 3 \<rparr>,
         \<lparr> e_key = Some ''meeting_the_mentor'',
           e_title = Some ''Meeting the Mentor'',
           e_description = Some ''The hero encounters a mentor figure who provides guidance, wisdom, or magical aid.'',
           e_order = Some 4 \<rparr>,
         \<lparr> e_key = Some ''crossing_threshold'',
           e_title = Some ''Crossing the First Threshold'',
           e_description = Some ''The hero commits to the adventure and crosses into the special world where the rules are different.'',
           e_order = Some 5 \<rparr>,
         \<lparr> e_key = Some ''tests_allies_enemies'',
           e_title = Some ''Tests, Allies, and Enemies'',
           e_description = Some ''The hero faces tests, makes allies, and confronts enemies in the special world.'',
           e_order = Some 6 \<rparr>,
         \<lparr> e_key = Some ''approach_inmost_cave'',
           e_title = Some ''Approach to the Inmost Cave'',
           e_description = Some ''The hero prepares for the major challenge ahead, often involving introspection or preparation.'',
           e_order = Some 7 \<rparr>,
         \<lparr> e_key = Some ''ordeal'',
           e_title = Some ''The Ordeal'',
           e_description = Some (''The hero faces their greatest fear or challenge, a moment of '' @ [CHR 0x22] @ ''death and rebirth.'' @ [CHR 0x22]),
           e_order = Some 8 \<rparr>,
         \<lparr> e_key = Some ''reward'',
           e_title = Some ''Reward (Seizing the Sword)'',
           e_description = Some ''The hero obtains what they sought, be it a physical object, knowledge, or reconciliation.'',
           e_order = Some 9 \<rparr>,
         \<lparr> e_key = Some ''road_back'',
           e_title = Some ''The Road Back'',
           e_description = Some ''The hero begins the journey back to the ordinary world, often pursued by remaining threats.'',
           e_order = Some 10 \<rparr>,
         \<lparr> e_key = Some ''resurrection'',
           e_title = Some ''Resurrection'',
           e_description = Some ''The hero faces a final test, using all they've learned to overcome the ultimate challenge.'',
           e_order = Some 11 \<rparr>,
         \<lparr> e_key = Some ''return_with_elixir'',
           e_title = Some ''Return with the Elixir'',
           e_description = Some ''The hero returns to the ordinary world with something that can benefit others (insight, treasure, or love).'',
           e_order = Some 12 \<rparr>],
       new_tpl_isDefault = Some (Some True) \<rparr>"

definition three_act_template :: InsertPlotStructureTemplate where
  "three_act_template =
     \<lparr> new_tpl_templateType = ''three_act'',
       new_tpl_name = ''Three Act Structure'',
       new_tpl_description = Some (Some ''A traditional storytelling approach divided into beginning (setup), middle (confrontation), and end (resolution).''),
       new_tpl_sections = Entries [
         \<lparr> e_key = Some ''act1_setup'',
           e_title = Some ''Act 1: Setup'',
           e_description = Some ''Introduce the main characters, setting, and the central conflict. Ends with an inciting incident that launches the main storyline.'',
           e_order = Some 1 \<rparr>,
         \<lparr> e_key = Some ''act1_inciting_incident'',
           e_title = Some ''Inciting Incident'',
           e_description = Some ''The event that sets the story in motion and disrupts the protagonist's normal life.'',
           e_order = Some 2 \<rparr>,
         \<lparr> e_key = Some ''act1_turning_point'',
           e_title = Some ''First Plot Point'',
           e_description = Some ''The protagonist commits to addressing the central conflict, transitioning into Act 2.'',
           e_order = Some 3 \<rparr>,
         \<lparr> e_key = Some ''act2_confrontation'',
           e_title = Some ''Act 2: Confrontation'',
           e_description = Some ''The protagonist faces obstacles while trying to resolve the central problem. Tension escalates.'',
           e_order = Some 4 \<rparr>,
         \<lparr> e_key = Some ''act2_midpoint'',
           e_title = Some ''Midpoint'',
           e_description = Some ''A significant event that changes the protagonist's perspective or approach to their goal.'',
           e_order = Some 5 \<rparr>,
         \<lparr> e_key = Some ''act2_turning_point'',
           e_title = Some ''Second Plot Point'',
           e_description = Some ''A major setback or revelation that propels the story into the final act.'',
           e_order = Some 6 \<rparr>,
         \<lparr> e_key = Some ''act3_resolution'',
           e_title = Some ''Act 3: Resolution'',
           e_description = Some ''The central conflict reaches its climax and is resolved. The story concludes with a new equilibrium.'',
           e_order = Some 7 \<rparr>,
         \<lparr> e_key = Some ''act3_climax'',
           e_title = Some ''Climax'',
           e_description = Some ''The final confrontation where the protagonist faces the antagonist or main challenge.'',
           e_order = Some 8 \<rparr>,
         \<lparr> e_key = Some ''act3_denouement'',
           e_title = Some ''Denouement'',
           e_description = Some ''Loose ends are tied up and we see how characters have changed. The new normal is established.'',
           e_order = Some 9 \<rparr>],
       new_tpl_isDefault = Some (Some True) \<rparr>"

definition story_circle_template :: InsertPlotStructureTemplate where
  "story_circle_template =
     \<lparr> new_tpl_templateType = ''story_circle'',
       new_tpl_name = ''Dan Harmon's Story Circle'',
       new_tpl_description = Some (Some ''An eight-step storytelling structure derived from Joseph Campbell's Hero's Journey but simplified for modern storytelling.''),
       new_tpl_sections = Entries [
         \<lparr> e_key = Some ''you'',
           e_title = Some ''1. You (A character is in a zone of comfort)'',
           e_description = Some ''Establish the protagonist in their familiar environment and normal life.'',
           e_order = Some 1 \<rparr>,
         \<lparr> e_key = Some ''need'',
           e_title = Some ''2. Need (But they want something)'',
           e_description = Some ''The protagonist develops a conscious or unconscious desire for something.'',
           e_order = Some 2 \<rparr>,
         \<lparr> e_key = Some ''go'',
           e_title = Some ''3. Go (They enter an unfamiliar situation)'',
           e_description = Some ''The protagonist leaves their comfort zone and enters a new, unfamiliar situation.'',
           e_order = Some 3 \<rparr>,
         \<lparr> e_key = Some ''search'',
           e_title = Some ''4. Search (Adapt to it)'',
           e_description = Some ''The protagonist searches for what they need while adapting to the new situation.'',
           e_order = Some 4 \<rparr>,
         \<lparr> e_key = Some ''find'',
           e_title = Some ''5. Find (Find what they wanted)'',
           e_description = Some ''The protagonist gets what they were looking for, but it comes with complications.'',
           e_order = Some 5 \<rparr>,
         \<lparr> e_key = Some ''take'',
           e_title = Some ''6. Take (Pay a heavy price for it)'',
           e_description = Some ''The protagonist pays a price for getting what they wanted and faces consequences.'',
           e_order = Some 6 \<rparr>,
         \<lparr> e_key = Some ''return'',
           e_title = Some ''7. Return (And go back to where they started)'',
           e_description = Some ''The protagonist returns to their familiar situation, bringing with them new knowledge or power.'',
           e_order = Some 7 \<rparr>,
         \<lparr> e_key = Some ''change'',
           e_title = Some ''8. Change (Having changed)'',
           e_description = Some ''The protagonist has fundamentally changed as a result of their journey.'',
           e_order = Some 8 \<rparr>],
       new_tpl_isDefault = Some (Some True) \<rparr>"

definition fichtean_curve_template :: InsertPlotStructureTemplate where
  "fichtean_curve_template =
     \<lparr> new_tpl_templateType = ''fichtean_curve'',
       new_tpl_name = ''Fichtean Curve'',
       new_tpl_description = Some (Some ''A story structure focused on a series of rising crises that build to a major climax, with little to no falling action or resolution.''),
       new_tpl_sections = Entries [
         \<lparr> e_key = Some ''introduction'',
           e_title = Some ''Introduction'',
           e_description = Some ''Brief introduction of the character and situation, immediately leading into action.'',
           e_order = Some 1 \<rparr>,
         \<lparr> e_key = Some ''crisis_1'',
           e_title = Some ''First Crisis'',
           e_description = Some ''The first major obstacle or challenge the protagonist faces.'',
           e_order = Some 2 \<rparr>,
         \<lparr> e_key = Some ''crisis_2'',
           e_title = Some ''Second Crisis'',
           e_description = Some ''A more significant challenge that builds on the first crisis.'',
           e_order = Some 3 \<rparr>,
         \<lparr> e_key = Some ''crisis_3'',
           e_title = Some ''Third Crisis'',
           e_description = Some ''An even more significant challenge that continues to raise the stakes.'',
           e_order = Some 4 \<rparr>,
         \<lparr> e_key = Some ''crisis_4'',
           e_title = Some ''Fourth Crisis'',
           e_description = Some ''The tension continues to build with increasingly difficult obstacles.'',
           e_order = Some 5 \<rparr>,
         \<lparr> e_key = Some ''final_crisis'',
           e_title = Some ''Final Crisis'',
           e_description = Some ''The ultimate challenge where the protagonist must use everything they've learned.'',
           e_order = Some 6 \<rparr>,
         \<lparr> e_key = Some ''climax'',
           e_title = Some ''Climax'',
           e_description = Some ''The highest point of tension and the moment of truth where the main conflict is resolved.'',
           e_order = Some 7 \<rparr>,
         \<lparr> e_key = Some ''brief_resolution'',
           e_title = Some ''Brief Resolution'',
           e_description = Some ''A very brief conclusion showing the aftermath of the climactic moment.'',
           e_order = Some 8 \<rparr>],
       new_tpl_isDefault = Some (Some True) \<rparr>"

definition save_the_cat_template :: InsertPlotStructureTemplate where
  "save_the_cat_template =
     \<lparr> new_tpl_templateType = ''save_the_cat'',
       new_tpl_name = ''Save the Cat Beat Sheet'',
       new_tpl_description = Some (Some ''Blake Snyder's 15-beat story structure popularly used in screenwriting but applicable to novels as well.''),
       new_tpl_sections = Entries [
         \<lparr> e_key = Some ''opening_image'',
           e_title = Some ''1. Opening Image'',
           e_description = Some ''A snapshot of the main character and their world before the story begins. Sets the tone and mood.'',
           e_order = Some 1 \<rparr>,
         \<lparr> e_key = Some ''theme_stated'',
           e_title = Some ''2. Theme Stated'',
           e_description = Some ''Someone states (often indirectly) what the story is thematically about.'',
           e_order = Some 2 \<rparr>,
         \<lparr> e_key = Some ''setup'',
           e_title = Some ''3. Setup'',
           e_description = Some ''Introduce the main characters and their world, showing what needs fixing in the hero's life.'',
           e_order = Some 3 \<rparr>,
         \<lparr> e_key = Some ''catalyst'',
           e_title = Some ''4. Catalyst'',
           e_description = Some ''The inciting incident that sets the story in motion and disrupts the status quo.'',
           e_order = Some 4 \<rparr>,
         \<lparr> e_key = Some ''debate'',
           e_title = Some ''5. Debate'',
           e_description = Some ''The hero initially resists the call to change, weighing options and considering risks.'',
           e_order = Some 5 \<rparr>,
         \<lparr> e_key = Some ''break_into_two'',
           e_title = Some ''6. Break into Two'',
           e_description = Some ''The hero decides to accept the challenge and enters a new world or situation.'',
           e_order = Some 6 \<rparr>,
         \<lparr> e_key = Some ''b_story'',
           e_title = Some ''7. B Story'',
           e_description = Some ''A secondary story (often a love story) that carries the theme and helps the hero solve the main problem.'',
           e_order = Some 7 \<rparr>,
         \<lparr> e_key = Some ''fun_and_games'',
           e_title = Some ''8. Fun and Games'',
           e_description = Some (''The '' @ [CHR 0x22] @ ''promise of the premise'' @ [CHR 0x22] @ '' where we see the hero in their new world, exploring the concept.''),
           e_order = Some 8 \<rparr>,
         \<lparr> e_key = Some ''midpoint'',
           e_title = Some ''9. Midpoint'',
           e_description = Some ''A false victory (or false defeat) that raises the stakes and pushes the hero in a new direction.'',
           e_order = Some 9 \<rparr>,
         \<lparr> e_key = Some ''bad_guys_close_in'',
           e_title = Some ''10. Bad Guys Close In'',
           e_description = Some ''External pressures mount and internal doubts increase as enemies regroup after the midpoint.'',
           e_order = Some 10 \<rparr>,
         \<lparr> e_key = Some ''all_is_lost'',
           e_title = Some ''11. All Is Lost'',
           e_description = Some ''The opposite of the midpoint: a false defeat (or false victory) where things are at their worst.'',
           e_order = Some 11 \<rparr>,
         \<lparr> e_key = Some ''dark_night_of_soul'',
           e_title = Some ''12. Dark Night of the Soul'',
           e_description = Some ''The hero's darkest moment where they must dig deep to find a solution.'',
           e_order = Some 12 \<rparr>,
         \<lparr> e_key = Some ''break_into_three'',
           e_title = Some ''13. Break into Three'',
           e_description = Some ''The hero figures out a solution, often by combining A and B stories, and heads to the finale.'',
           e_order = Some 13 \<rparr>,
         \<lparr> e_key = Some ''finale'',
           e_title = Some ''14. Finale'',
           e_description = Some ''The hero executes their plan, overcomes obstacles, and resolves the central problem.'',
           e_order = Some 14 \<rparr>,
         \<lparr> e_key = Some ''final_image'',
           e_title = Some ''15. Final Image'',
           e_description = Some ''A mirror to the opening image, showing how the world and character have changed.'',
           e_order = Some 15 \<rparr>],
       new_tpl_isDefault = Some (Some True) \<rparr>"

definition seven_point_template :: InsertPlotStructureTemplate where
  "seven_point_template =
     \<lparr> new_tpl_templateType = ''seven_point'',
       new_tpl_name = ''Seven-Point Story Structure'',
       new_tpl_description = Some (Some ''A story framework with seven key story points: hook, plot turn 1, pinch 1, midpoint, pinch 2, plot turn 2, and resolution.''),
       new_tpl_sections = Entries [
         \<lparr> e_key = Some ''hook'',
           e_title = Some ''1. Hook'',
           e_description = Some ''The starting point that draws readers in. Establishes the character in their normal world.'',
           e_order = Some 1 \<rparr>,
         \<lparr> e_key = Some ''plot_turn_1'',
           e_title = Some ''2. Plot Turn 1'',
           e_description = Some ''The event that sets the story in motion. The protagonist leaves their comfort zone.'',
           e_order = Some 2 \<rparr>,
         \<lparr> e_key = Some ''pinch_1'',
           e_title = Some ''3. Pinch 1'',
           e_description = Some ''The first major obstacle that applies pressure to the protagonist and raises the stakes.'',
           e_order = Some 3 \<rparr>,
         \<lparr> e_key = Some ''midpoint'',
           e_title = Some ''4. Midpoint'',
           e_description = Some ''The protagonist moves from reaction to action. A turning point where they change their approach.'',
           e_order = Some 4 \<rparr>,
         \<lparr> e_key = Some ''pinch_2'',
           e_title = Some ''5. Pinch 2'',
           e_description = Some ''A second, more significant obstacle that forces the protagonist to commit fully to their goal.'',
           e_order = Some 5 \<rparr>,
         \<lparr> e_key = Some ''plot_turn_2'',
           e_title = Some ''6. Plot Turn 2'',
           e_description = Some ''The protagonist obtains the final piece of information or tool needed to resolve the central conflict.'',
           e_order = Some 6 \<rparr>,
         \<lparr> e_key = Some ''resolution'',
           e_title = Some ''7. Resolution'',
           e_description = Some ''The protagonist confronts the antagonist or problem and resolves the central conflict.'',
           e_order = Some 7 \<rparr>],
       new_tpl_isDefault = Some (Some True) \<rparr>"

definition freeform_template :: InsertPlotStructureTemplate where
  "freeform_template =
     \<lparr> new_tpl_templateType = ''freeform'',
       new_tpl_name = ''Freeform Structure'',
       new_tpl_description = Some (Some ''A completely customizable story structure where you define your own sections and organization.''),
       new_tpl_sections = Entries [
         \<lparr> e_key = Some ''section_1'',
           e_title = Some ''Section 1'',
           e_description = Some ''Define your own structure and organization here.'',
           e_order = Some 1 \<rparr>,
         \<lparr> e_key = Some ''section_2'',
           e_title = Some ''Section 2'',
           e_description = Some ''Add as many sections as needed for your story.'',
           e_order = Some 2 \<rparr>,
         \<lparr> e_key = Some ''section_3'',
           e_title = Some ''Section 3'',
           e_description = Some ''Customize titles and descriptions to fit your specific storytelling needs.'',
           e_order = Some 3 \<rparr>],
       new_tpl_isDefault = Some (Some True) \<rparr>"

definition plotTemplates :: "InsertPlotStructureTemplate list" where
  "plotTemplates = [freytag_template,
     hero_journey_template,
     three_act_template,
     story_circle_template,
     fichtean_curve_template,
     save_the_cat_template,
     seven_point_template,
     freeform_template]"

definition initPlotTemplates :: "timestamp \<Rightarrow> database \<Rightarrow> database" where
  "initPlotTemplates = initPlotTemplatesFrom plotTemplates"

section \<open>JavaScript strings and numbers\<close>

definition startsWith :: "string \<Rightarrow> string \<Rightarrow> bool" where
  "startsWith s searchString \<longleftrightarrow> take (length searchString) s = searchString"


text \<open>\<open>s.split(sep)\<close> for a separator of one character: the empty string gives \<open>[""]\<close>.\<close>

fun split :: "char \<Rightarrow> string \<Rightarrow> string list" where
  "split sep [] = [[]]"
| "split sep (c # cs) =
     (if c = sep then [] # split sep cs
      else (case split sep cs of
              [] \<Rightarrow> [[c]]
            | part # parts \<Rightarrow> (c # part) # parts))"

text \<open>
  A JavaScript number, as far as the code here needs it: \<open>NaN\<close>, an integer of magnitude at
  most \<open>2^53\<close> (which a double holds exactly), or \<open>Rounded\<close>, a double of larger magnitude
  whose value the model does not keep.
\<close>

datatype number = NaN | Integer int | Rounded

definition to_number :: "int \<Rightarrow> number" where
  "to_number m = (if \<bar>m\<bar> \<le> 9007199254740992 then Integer m else Rounded)"


definition isWhiteSpace :: "char \<Rightarrow> bool" where
  "isWhiteSpace c \<longleftrightarrow>
     c \<in> {CHR 0x09, CHR 0x0A, CHR 0x0B, CHR 0x0C, CHR 0x0D, CHR 0x20, CHR 0xA0}"

definition digit_value :: "char \<Rightarrow> nat option" where
  "digit_value c =
     (let n = of_char c :: nat
      in if 48 \<le> n \<and> n \<le> 57 then Some (n - 48)
         else if 97 \<le> n \<and> n \<le> 122 then Some (n - 87)
         else if 65 \<le> n \<and> n \<le> 90 then Some (n - 55)
         else None)"

definition is_digit :: "nat \<Rightarrow> char \<Rightarrow> bool" where
  "is_digit radix c \<longleftrightarrow> (case digit_value c of None \<Rightarrow> False | Some d \<Rightarrow> d < radix)"

definition digits_value :: "nat \<Rightarrow> string \<Rightarrow> int" where
  "digits_value radix z =
     foldl (\<lambda>acc c. acc * int radix + int (case digit_value c of None \<Rightarrow> 0 | Some d \<Rightarrow> d)) 0 z"

text \<open>
  \<open>parseInt(string)\<close> with no radix: leading white space and one sign are skipped, a
  \<open>0x\<close> or \<open>0X\<close> prefix selects radix 16, and the longest run of digits is read; with no
  digit the result is \<open>NaN\<close>.
\<close>

definition parseInt :: "string \<Rightarrow> number" where
  "parseInt string =
     (let s = dropWhile isWhiteSpace string;
          sign = (if s \<noteq> [] \<and> hd s = CHR ''-'' then - 1 else 1 :: int);
          s1 = (if s \<noteq> [] \<and> (hd s = CHR ''+'' \<or> hd s = CHR ''-'') then tl s else s);
          hex = (startsWith s1 ''0x'' \<or> startsWith s1 ''0X'');
          radix = (if hex then 16 else 10 :: nat);
          s2 = (if hex then drop 2 s1 else s1);
          z = takeWhile (is_digit radix) s2
      in if z = [] then NaN else to_number (sign * digits_value radix z))"

section \<open>The middleware isAuthenticated (server/routes.ts)\<close>

text \<open>
  Of the request, the middleware reads the answer of \<open>req.isAuthenticated()\<close>, \<open>req.user\<close>
  and the \<open>Authorization\<close> header; it may write \<open>req.user\<close>. It ends by calling \<open>next()\<close>,
  which hands the request to the route handler, or by answering 401.
\<close>

record user =
  user_id :: number
  username :: string

record request =
  req_isAuthenticated :: bool
  req_user :: "user option"
  authorization :: "string option"

datatype outcome = Next request | Unauthorized_401



section \<open>Route handlers (server/routes.ts)\<close>

text \<open>
  A handler is given the path parameter as the string of the URL and, for \<open>PUT\<close>, the
  body as the payload the storage method is typed to take. The id reaches the store as a
  parameter of an \<open>integer\<close> comparison: when it is not an integer of the column's range the
  query throws, and the handler's \<open>catch\<close> answers 500.
\<close>

datatype body =
    NoBody
  | Message string
  | Structure PlotStructure
  | Structures "PlotStructure list"
  | Section PlotStructureSection
  | Sections "PlotStructureSection list"

record response =
  status :: nat
  json :: body

fun id_param :: "number \<Rightarrow> db_error + int" where
  "id_param NaN = Inl InvalidInteger"
| "id_param Rounded = Inl IntegerOutOfRange"
| "id_param (Integer n) = (if int4 n then Inr n else Inl IntegerOutOfRange)"

definition GET_project_plot_structures :: "string \<Rightarrow> database \<Rightarrow> response" where
  "GET_project_plot_structures projectIdParam db =
     (case id_param (parseInt projectIdParam) of
        Inl e \<Rightarrow> \<lparr> status = 500, json = Message ''Failed to fetch plot structures'' \<rparr>
      | Inr projectId \<Rightarrow>
          \<lparr> status = 200, json = Structures (getProjectPlotStructures projectId db) \<rparr>)"

definition PUT_plot_structure ::
  "timestamp \<Rightarrow> string \<Rightarrow> PartialPlotStructure \<Rightarrow> database \<Rightarrow> response \<times> database" where
  "PUT_plot_structure now idParam reqBody db =
     (case id_param (parseInt idParam) of
        Inl e \<Rightarrow> (\<lparr> status = 500, json = Message ''Failed to update plot structure'' \<rparr>, db)
      | Inr sid \<Rightarrow>
          (case updatePlotStructure now sid reqBody db of
             Inl e \<Rightarrow> (\<lparr> status = 500, json = Message ''Failed to update plot structure'' \<rparr>, db)
           | Inr (None, db') \<Rightarrow>
               (\<lparr> status = 404, json = Message ''Plot structure not found'' \<rparr>, db')
           | Inr (Some updatedStructure, db') \<Rightarrow>
               (\<lparr> status = 200, json = Structure updatedStructure \<rparr>, db')))"

definition DELETE_plot_structure :: "string \<Rightarrow> database \<Rightarrow> response \<times> database" where
  "DELETE_plot_structure idParam db =
     (case id_param (parseInt idParam) of
        Inl e \<Rightarrow> (\<lparr> status = 500, json = Message ''Failed to delete plot structure'' \<rparr>, db)
      | Inr sid \<Rightarrow>
          (let (success, db') = deletePlotStructure sid db
           in if \<not> success
              then (\<lparr> status = 404, json = Message ''Plot structure not found'' \<rparr>, db')
              else (\<lparr> status = 204, json = NoBody \<rparr>, db')))"

definition GET_plot_structure_sections :: "string \<Rightarrow> database \<Rightarrow> response" where
  "GET_plot_structure_sections structureIdParam db =
     (case id_param (parseInt structureIdParam) of
        Inl e \<Rightarrow> \<lparr> status = 500, json = Message ''Failed to fetch plot structure sections'' \<rparr>
      | Inr structureId \<Rightarrow>
          \<lparr> status = 200, json = Sections (getPlotStructureSections structureId db) \<rparr>)"

definition PUT_plot_structure_section ::
  "timestamp \<Rightarrow> string \<Rightarrow> PartialPlotStructureSection \<Rightarrow> database \<Rightarrow> response \<times> database" where
  "PUT_plot_structure_section now idParam reqBody db =
     (case id_param (parseInt idParam) of
        Inl e \<Rightarrow>
          (\<lparr> status = 500, json = Message ''Failed to update plot structure section'' \<rparr>, db)
      | Inr sid \<Rightarrow>
          (case updatePlotStructureSection now sid reqBody db of
             Inl e \<Rightarrow>
               (\<lparr> status = 500, json = Message ''Failed to update plot structure section'' \<rparr>, db)
           | Inr (None, db') \<Rightarrow>
               (\<lparr> status = 404, json = Message ''Plot structure section not found'' \<rparr>, db')
           | Inr (Some updatedSection, db') \<Rightarrow>
               (\<lparr> status = 200, json = Section updatedSection \<rparr>, db')))"

section \<open>The section materializer\<close>

text \<open>
  Modelled from the spec: the operation \<open>instantiate(projectId, templateId)\<close> of the
  specification's section 4.2. The repository's materializer is \<open>createFromTemplate\<close> of
  the hook module \<open>@/hooks/use-plot-structure\<close>, which the plot structure manager component
  calls; the module itself is missing from the sources at hand. The definitions of this
  section follow the five steps of the specification, on top of the storage methods above.
\<close>

text \<open>
  Modelled from the spec: an entry of the parsed list of step 2, which has its \<open>key\<close>,
  \<open>title\<close> and \<open>order\<close>.
\<close>

record template_section =
  ts_key :: string
  ts_title :: string
  ts_description :: "string option"
  ts_order :: int

text \<open>
  Modelled from the spec: the failures of \<open>instantiate\<close>, NotFound of step 1,
  InvalidTemplate of step 2, and a creation that the store rejects in step 3 or 4.
\<close>

datatype instantiate_error = NotFound | InvalidTemplate | StoreFailed db_error

text \<open>
  Modelled from the spec: step 2 for one entry, which is malformed when it misses
  \<open>key\<close>, \<open>title\<close> or \<open>order\<close>.
\<close>

fun parse_entry :: "section_entry \<Rightarrow> template_section option" where
  "parse_entry e =
     (case (e_key e, e_title e, e_order e) of
        (Some k, Some t, Some n) \<Rightarrow>
          Some \<lparr> ts_key = k, ts_title = t, ts_description = e_description e, ts_order = n \<rparr>
      | _ \<Rightarrow> None)"

text \<open>Modelled from the spec: step 2 for the entries of the array, in their order.\<close>

fun parse_entries :: "section_entry list \<Rightarrow> template_section list option" where
  "parse_entries [] = Some []"
| "parse_entries (e # es) =
     (case parse_entry e of
        None \<Rightarrow> None
      | Some t \<Rightarrow> (case parse_entries es of None \<Rightarrow> None | Some ts \<Rightarrow> Some (t # ts)))"

text \<open>
  Modelled from the spec: step 2, "parse \<open>Template.sections\<close> into an ordered list; fail
  with InvalidTemplate if malformed (not parseable, or any entry missing
  \<open>key\<close>/\<open>title\<close>/\<open>order\<close>)"; \<open>None\<close> is the failure.
\<close>

fun parse_sections :: "sections_json \<Rightarrow> template_section list option" where
  "parse_sections Unparseable = None"
| "parse_sections (Entries es) = parse_entries es"

text \<open>
  Modelled from the spec: step 3, "order = next available among the project's top-level
  instances", read as one more than the largest order in use there, and 0 when there is
  none.
\<close>

definition next_order :: "int \<Rightarrow> database \<Rightarrow> int" where
  "next_order projectId db =
     (case List.map_filter ps_order
             (filter (\<lambda>r. ps_projectId r = projectId \<and> ps_parentId r = None)
                (plotStructures db)) of
        [] \<Rightarrow> 0
      | n # ns \<Rightarrow> fold max ns n + 1)"

text \<open>
  Modelled from the spec: the row of step 4 for one entry, "\<open>sectionKey = entry.key\<close>,
  \<open>title = entry.title\<close>, \<open>content = ""\<close>, \<open>order = entry.order\<close>".
\<close>

definition section_of_entry :: "int \<Rightarrow> template_section \<Rightarrow> InsertPlotStructureSection" where
  "section_of_entry plotStructureId entry =
     \<lparr> new_sec_plotStructureId = plotStructureId,
       new_sec_sectionKey = ts_key entry,
       new_sec_title = ts_title entry,
       new_sec_content = Some (Some []),
       new_sec_order = ts_order entry \<rparr>"

text \<open>
  Modelled from the spec: the loop of step 4, "for each template section entry ... create
  one Section row", over the entries in the order given. It stops at the first creation
  that fails, and returns the failure, the rows created until then and the store.
\<close>

fun create_sections ::
  "timestamp \<Rightarrow> int \<Rightarrow> template_section list \<Rightarrow> database
     \<Rightarrow> db_error option \<times> PlotStructureSection list \<times> database" where
  "create_sections now plotStructureId [] db = (None, [], db)"
| "create_sections now plotStructureId (entry # entries) db =
     (case createPlotStructureSection now (section_of_entry plotStructureId entry) db of
        Inl e \<Rightarrow> (Some e, [], db)
      | Inr (row, db') \<Rightarrow>
          (case create_sections now plotStructureId entries db' of
             (failure, rows, db'') \<Rightarrow> (failure, row # rows, db'')))"

text \<open>
  Modelled from the spec: step 4, "explicitly roll back (delete the Instance and any
  created Sections) on partial failure", with the storage methods that delete by id.
\<close>

definition roll_back :: "PlotStructure \<Rightarrow> PlotStructureSection list \<Rightarrow> database \<Rightarrow> database" where
  "roll_back inst created db =
     fold (\<lambda>row d. snd (deletePlotStructureSection (sec_id row) d)) created
       (snd (deletePlotStructure (ps_id inst) db))"

text \<open>
  Modelled from the spec: steps 1 to 5 of \<open>instantiate\<close>. The result is the instance or
  the failure, and the store afterwards.
\<close>

definition instantiate ::
  "timestamp \<Rightarrow> int \<Rightarrow> int \<Rightarrow> database \<Rightarrow> (instantiate_error + PlotStructure) \<times> database" where
  "instantiate now projectId templateId db =
     (case getPlotStructureTemplate templateId db of
        None \<Rightarrow> (Inl NotFound, db)
      | Some template \<Rightarrow>
          (case parse_sections (tpl_sections template) of
             None \<Rightarrow> (Inl InvalidTemplate, db)
           | Some entries \<Rightarrow>
               (case createPlotStructure now
                       \<lparr> new_ps_projectId = projectId,
                         new_ps_templateId = templateId,
                         new_ps_name = tpl_name template,
                         new_ps_description = None,
                         new_ps_parentId = None,
                         new_ps_order = Some (Some (next_order projectId db)) \<rparr> db of
                  Inl e \<Rightarrow> (Inl (StoreFailed e), db)
                | Inr (inst, db1) \<Rightarrow>
                    (case create_sections now (ps_id inst) (sort_key ts_order entries) db1 of
                       (Some e, created, db2) \<Rightarrow> (Inl (StoreFailed e), roll_back inst created db2)
                     | (None, created, db2) \<Rightarrow> (Inr inst, db2)))))"

section \<open>Stores, payloads and predicates of the statements\<close>

text \<open>The store before anything was inserted.\<close>

definition empty_store :: database where
  "empty_store =
     \<lparr> plotStructureTemplates = [], plotStructureTemplates_seq = 0,
       plotStructures = [], plotStructures_seq = 0,
       plotStructureSections = [], plotStructureSections_seq = 0 \<rparr>"

text \<open>
  A store with two plot structures of project 42, the first of them with two sections. The
  structure created first was given the larger \<open>order\<close>.
\<close>

definition example_store :: database where
  "example_store =
     \<lparr> plotStructureTemplates = [], plotStructureTemplates_seq = 0,
       plotStructures =
         [\<lparr> ps_id = 1, ps_projectId = 42, ps_templateId = 3, ps_name = ''Three Act Structure'',
            ps_description = None, ps_parentId = None, ps_order = Some 2,
            ps_createdAt = Some 1000, ps_updatedAt = Some 1000 \<rparr>,
          \<lparr> ps_id = 2, ps_projectId = 42, ps_templateId = 1, ps_name = ''Freytag's Pyramid'',
            ps_description = None, ps_parentId = None, ps_order = Some 1,
            ps_createdAt = Some 2000, ps_updatedAt = Some 2000 \<rparr>],
       plotStructures_seq = 2,
       plotStructureSections =
         [\<lparr> sec_id = 1, sec_plotStructureId = 1, sec_sectionKey = ''act1_setup'',
            sec_title = ''Act 1: Setup'', sec_content = Some [], sec_order = 1,
            sec_createdAt = Some 1000, sec_updatedAt = Some 1000 \<rparr>,
          \<lparr> sec_id = 2, sec_plotStructureId = 1, sec_sectionKey = ''act1_inciting_incident'',
            sec_title = ''Act 1: Inciting Incident'', sec_content = Some [], sec_order = 2,
            sec_createdAt = Some 1000, sec_updatedAt = Some 1000 \<rparr>],
       plotStructureSections_seq = 2 \<rparr>"


definition templateId_only :: "int \<Rightarrow> PartialPlotStructure" where
  "templateId_only t =
     \<lparr> upd_ps_id = None, upd_ps_projectId = None, upd_ps_templateId = Some t,
       upd_ps_name = None, upd_ps_description = None, upd_ps_parentId = None,
       upd_ps_order = None, upd_ps_createdAt = None, upd_ps_updatedAt = None \<rparr>"

definition name_only :: "string \<Rightarrow> PartialPlotStructure" where
  "name_only n =
     \<lparr> upd_ps_id = None, upd_ps_projectId = None, upd_ps_templateId = None,
       upd_ps_name = Some n, upd_ps_description = None, upd_ps_parentId = None,
       upd_ps_order = None, upd_ps_createdAt = None, upd_ps_updatedAt = None \<rparr>"

text \<open>A row of the catalog that carries the columns of a built-in template.\<close>

definition seeded_from :: "InsertPlotStructureTemplate \<Rightarrow> PlotStructureTemplate \<Rightarrow> bool" where
  "seeded_from template r \<longleftrightarrow>
     tpl_templateType r = new_tpl_templateType template
     \<and> tpl_name r = new_tpl_name template
     \<and> tpl_description r = or_default None (new_tpl_description template)
     \<and> tpl_sections r = new_tpl_sections template
     \<and> tpl_isDefault r = or_default (Some False) (new_tpl_isDefault template)"



text \<open>
  A catalog with three authored templates: the first has one section, whose key has 101
  characters; the second has three sections, the second of them with such a key; the
  third has one section, whose order is \<open>2^32\<close>.
\<close>

definition authored_store :: database where
  "authored_store =
     \<lparr> plotStructureTemplates =
         [\<lparr> tpl_id = 1, tpl_templateType = ''custom'', tpl_name = ''One chapter'',
            tpl_description = None,
            tpl_sections = Entries
              [\<lparr> e_key = Some (replicate 101 CHR ''k''), e_title = Some ''Chapter'',
                 e_description = None, e_order = Some 1 \<rparr>],
            tpl_createdAt = Some 1000, tpl_updatedAt = Some 1000, tpl_isDefault = Some False \<rparr>,
          \<lparr> tpl_id = 2, tpl_templateType = ''custom'', tpl_name = ''Three chapters'',
            tpl_description = None,
            tpl_sections = Entries
              [\<lparr> e_key = Some ''first'', e_title = Some ''First'',
                 e_description = None, e_order = Some 1 \<rparr>,
               \<lparr> e_key = Some (replicate 101 CHR ''k''), e_title = Some ''Second'',
                 e_description = None, e_order = Some 2 \<rparr>,
               \<lparr> e_key = Some ''third'', e_title = Some ''Third'',
                 e_description = None, e_order = Some 3 \<rparr>],
            tpl_createdAt = Some 1000, tpl_updatedAt = Some 1000, tpl_isDefault = Some False \<rparr>,
          \<lparr> tpl_id = 3, tpl_templateType = ''custom'', tpl_name = ''Far chapter'',
            tpl_description = None,
            tpl_sections = Entries
              [\<lparr> e_key = Some ''far'', e_title = Some ''Far'',
                 e_description = None, e_order = Some 4294967296 \<rparr>],
            tpl_createdAt = Some 1000, tpl_updatedAt = Some 1000, tpl_isDefault = Some False \<rparr>],
       plotStructureTemplates_seq = 3,
       plotStructures = [], plotStructures_seq = 0,
       plotStructureSections = [], plotStructureSections_seq = 0 \<rparr>"




section \<open>Properties of the storage methods\<close>

subsection \<open>Listing sections\<close>

text \<open>
  C7. For every instance id, \<open>getPlotStructureSections\<close> returns the sections whose
  \<open>plotStructureId\<close> is that id, each as often as the table holds it, in ascending order of
  their \<open>order\<close> column.
\<close>

theorem getPlotStructureSections_sorted:
  "sorted (map sec_order (getPlotStructureSections plotStructureId db))
   \<and> mset (getPlotStructureSections plotStructureId db)
       = filter_mset (\<lambda>r. sec_plotStructureId r = plotStructureId)
           (mset (plotStructureSections db))"
  by (simp add: getPlotStructureSections_def)

text \<open>The route hands the list on as it is.\<close>

lemma GET_plot_structure_sections_sorted:
  assumes "id_param (parseInt structureIdParam) = Inr structureId"
  shows "GET_plot_structure_sections structureIdParam db
           = \<lparr> status = 200, json = Sections (getPlotStructureSections structureId db) \<rparr>
         \<and> sorted (map sec_order (getPlotStructureSections structureId db))"
  using assms by (simp add: GET_plot_structure_sections_def getPlotStructureSections_def)

subsection \<open>Rows and first rows\<close>


lemma first_row_SomeD:
  "first_row (filter P rows) = Some r \<Longrightarrow> \<exists>rest. filter P rows = r # rest"
  by (cases "filter P rows") auto


subsection \<open>Updating a section\<close>






subsection \<open>Updating a plot structure\<close>

text \<open>
  C5 as stated fails: the payload \<open>{templateId: 5}\<close>, sent to
  \<open>PUT /api/plot-structures/1\<close>, rebinds the structure created from template 3 to
  template 5.
\<close>

theorem updatePlotStructure_templateId_counterexample:
  "map_option ps_templateId (getPlotStructure 1 example_store) = Some 3
   \<and> fst (PUT_plot_structure 5000 ''1'' (templateId_only 5) example_store)
       = \<lparr> status = 200,
           json = Structure
             \<lparr> ps_id = 1, ps_projectId = 42, ps_templateId = 5,
               ps_name = ''Three Act Structure'', ps_description = None, ps_parentId = None,
               ps_order = Some 2, ps_createdAt = Some 1000, ps_updatedAt = Some 5000 \<rparr> \<rparr>
   \<and> map_option ps_templateId
         (getPlotStructure 1 (snd (PUT_plot_structure 5000 ''1'' (templateId_only 5) example_store)))
       = Some 5"
  by (simp add: getPlotStructure_def example_store_def PUT_plot_structure_def parseInt_def
        isWhiteSpace_def startsWith_def is_digit_def digit_value_def digits_value_def
        to_number_def int4_def updatePlotStructure_def templateId_only_def
        set_PlotStructure_def check_PlotStructure_def List.map_filter_def)

text \<open>
  C5, amended. For every existing plot structure and every update payload that the store
  accepts, the \<open>templateId\<close> of the updated row is the payload's when the payload carries
  one, and the one the structure had when it does not: the binding to the template
  survives exactly the updates that do not name \<open>templateId\<close>.
\<close>

theorem updatePlotStructure_templateId:
  assumes existing: "getPlotStructure sid db = Some old"
      and updated: "updatePlotStructure now sid structureUpdate db = Inr (res, db')"
  shows "\<exists>new. res = Some new
     \<and> ps_templateId new =
         (case upd_ps_templateId structureUpdate of None \<Rightarrow> ps_templateId old | Some t \<Rightarrow> t)
     \<and> (upd_ps_templateId structureUpdate = None \<longrightarrow> ps_templateId new = ps_templateId old)"
proof -
  from existing have "first_row (filter (\<lambda>r. ps_id r = sid) (plotStructures db)) = Some old"
    by (simp add: getPlotStructure_def)
  from first_row_SomeD [OF this]
  obtain rest where m: "filter (\<lambda>r. ps_id r = sid) (plotStructures db) = old # rest" ..
  from updated have "res = Some (set_PlotStructure now structureUpdate old)"
    by (auto simp: updatePlotStructure_def Let_def m split: list.splits if_splits)
  then show ?thesis
    by (cases "upd_ps_templateId structureUpdate") (simp_all add: set_PlotStructure_def)
qed

theorem updatePlotStructure_templateId_witness:
  "getPlotStructure 2 example_store \<noteq> None
   \<and> (\<exists>new db'. updatePlotStructure 5000 2 (name_only ''Act plan'') example_store
                    = Inr (Some new, db')
        \<and> ps_templateId new = 1 \<and> ps_name new = ''Act plan'')"
proof -
  let ?old = "\<lparr> ps_id = 2, ps_projectId = 42, ps_templateId = 1, ps_name = ''Freytag's Pyramid'',
            ps_description = None, ps_parentId = None, ps_order = Some 1,
            ps_createdAt = Some 2000, ps_updatedAt = Some 2000 \<rparr>"
  have existing: "getPlotStructure 2 example_store = Some ?old"
    by (simp add: getPlotStructure_def example_store_def)
  obtain res db' where
    updated: "updatePlotStructure 5000 2 (name_only ''Act plan'') example_store = Inr (res, db')"
    and name: "map_option ps_name res = Some ''Act plan''"
    by (simp add: updatePlotStructure_def example_store_def name_only_def
          set_PlotStructure_def check_PlotStructure_def int4_def List.map_filter_def)
  from updatePlotStructure_templateId [OF existing updated]
  show ?thesis using existing updated name by (auto simp: name_only_def)
qed

subsection \<open>Deleting a plot structure\<close>

text \<open>
  C3 as stated fails: after the plot structure 1 of the example store is deleted, its two
  sections are still in the store and are still listed for the id 1.
\<close>

theorem deletePlotStructure_cascade_counterexample:
  "map sec_id (getPlotStructureSections 1 example_store) = [1, 2]
   \<and> fst (DELETE_plot_structure ''1'' example_store) = \<lparr> status = 204, json = NoBody \<rparr>
   \<and> getPlotStructure 1 (snd (DELETE_plot_structure ''1'' example_store)) = None
   \<and> map sec_id (getPlotStructureSections 1 (snd (DELETE_plot_structure ''1'' example_store)))
       = [1, 2]"
  by (simp add: getPlotStructureSections_def getPlotStructure_def example_store_def
        DELETE_plot_structure_def parseInt_def isWhiteSpace_def startsWith_def is_digit_def
        digit_value_def digits_value_def to_number_def int4_def deletePlotStructure_def
        truthy_object_def)

text \<open>
  C3, amended. Deleting a plot structure removes the rows of the plot structure table with
  that id and nothing else: no plot structure with the id is left, every other plot
  structure stays, and the section table is the one it was, so the sections that reference
  the deleted structure stay in the store and are listed as before.
\<close>

theorem deletePlotStructure_rows:
  "plotStructures (snd (deletePlotStructure sid db))
       = filter (\<lambda>r. ps_id r \<noteq> sid) (plotStructures db)
   \<and> getPlotStructure sid (snd (deletePlotStructure sid db)) = None
   \<and> plotStructureSections (snd (deletePlotStructure sid db)) = plotStructureSections db
   \<and> getPlotStructureSections sid (snd (deletePlotStructure sid db))
       = getPlotStructureSections sid db
   \<and> plotStructureTemplates (snd (deletePlotStructure sid db)) = plotStructureTemplates db"
  by (simp add: deletePlotStructure_def getPlotStructure_def getPlotStructureSections_def)

subsection \<open>Listing the plot structures of a project\<close>

text \<open>
  C8 as stated fails: the two plot structures of project 42 in the example store are
  listed in the order in which they are stored, the one with \<open>order\<close> 2 before the one with
  \<open>order\<close> 1.
\<close>

theorem getProjectPlotStructures_order_counterexample:
  "map ps_order (getProjectPlotStructures 42 example_store) = [Some 2, Some 1]
   \<and> \<not> sorted (List.map_filter ps_order (getProjectPlotStructures 42 example_store))
   \<and> GET_project_plot_structures ''42'' example_store
       = \<lparr> status = 200, json = Structures (plotStructures example_store) \<rparr>"
  by (simp add: getProjectPlotStructures_def example_store_def List.map_filter_def
        GET_project_plot_structures_def parseInt_def isWhiteSpace_def startsWith_def
        is_digit_def digit_value_def digits_value_def to_number_def int4_def)

text \<open>
  C8, amended. For every project, \<open>getProjectPlotStructures\<close> returns exactly the plot
  structures of the project, each as often as the table holds it, in the order in which
  the store holds them; it does not sort them.
\<close>

theorem getProjectPlotStructures_rows:
  "mset (getProjectPlotStructures projectId db)
       = filter_mset (\<lambda>r. ps_projectId r = projectId) (mset (plotStructures db))
   \<and> subseq (getProjectPlotStructures projectId db) (plotStructures db)"
  by (simp add: getProjectPlotStructures_def)

subsection \<open>The answer to a delete request\<close>

text \<open>
  C9: on a store with no plot structure 999, \<open>DELETE /api/plot-structures/999\<close> is answered
  with 204, and \<open>deletePlotStructure\<close> returns true, where the claim has 404 and false.
\<close>

theorem DELETE_plot_structure_missing:
  "getPlotStructure 999 example_store = None
   \<and> fst (deletePlotStructure 999 example_store) = True
   \<and> DELETE_plot_structure ''999'' example_store
       = (\<lparr> status = 204, json = NoBody \<rparr>, example_store)"
  by (simp add: getPlotStructure_def example_store_def DELETE_plot_structure_def parseInt_def
        isWhiteSpace_def startsWith_def is_digit_def digit_value_def digits_value_def
        to_number_def int4_def deletePlotStructure_def truthy_object_def)

lemma deletePlotStructure_always_true:
  "fst (deletePlotStructure sid db) = True"
  by (simp add: deletePlotStructure_def truthy_object_def)

section \<open>Properties of the seeding\<close>

lemma insert_plotStructureTemplates_accepted:
  assumes "length (new_tpl_templateType template) \<le> 50"
      and "\<forall>r \<in> set (plotStructureTemplates db). tpl_id r \<le> plotStructureTemplates_seq db"
  shows "\<exists>row. insert_plotStructureTemplates now template db
           = Inr (row, db\<lparr> plotStructureTemplates := plotStructureTemplates db @ [row],
                           plotStructureTemplates_seq := plotStructureTemplates_seq db + 1 \<rparr>)
         \<and> seeded_from template row \<and> tpl_id row = plotStructureTemplates_seq db + 1"
  using assms
  by (fastforce simp: insert_plotStructureTemplates_def check_PlotStructureTemplate_def
        seeded_from_def Let_def)

lemma insert_each_accepted:
  assumes "\<forall>t \<in> set templates. length (new_tpl_templateType t) \<le> 50"
      and "\<forall>r \<in> set (plotStructureTemplates db). tpl_id r \<le> plotStructureTemplates_seq db"
  shows "\<exists>rows. insert_each now templates db
           = (None, db\<lparr> plotStructureTemplates := plotStructureTemplates db @ rows,
                         plotStructureTemplates_seq
                           := plotStructureTemplates_seq db + int (length templates) \<rparr>)
         \<and> list_all2 seeded_from templates rows"
  using assms
proof (induction templates arbitrary: db)
  case Nil
  then show ?case by simp
next
  case (Cons t ts)
  let ?db1 = "\<lambda>row. db\<lparr> plotStructureTemplates := plotStructureTemplates db @ [row],
                         plotStructureTemplates_seq := plotStructureTemplates_seq db + 1 \<rparr>"
  from Cons.prems insert_plotStructureTemplates_accepted [of t db now]
  obtain row where ins: "insert_plotStructureTemplates now t db = Inr (row, ?db1 row)"
    and row: "seeded_from t row" "tpl_id row = plotStructureTemplates_seq db + 1"
    by auto
  have "\<forall>r \<in> set (plotStructureTemplates (?db1 row)).
          tpl_id r \<le> plotStructureTemplates_seq (?db1 row)"
    using Cons.prems(2) row(2) by fastforce
  with Cons.IH [of "?db1 row"] Cons.prems(1)
  obtain rows where rest: "insert_each now ts (?db1 row)
      = (None, (?db1 row)\<lparr> plotStructureTemplates := plotStructureTemplates (?db1 row) @ rows,
             plotStructureTemplates_seq
               := plotStructureTemplates_seq (?db1 row) + int (length ts) \<rparr>)"
    and rows: "list_all2 seeded_from ts rows"
    by auto
  have "insert_each now (t # ts) db
      = (None, db\<lparr> plotStructureTemplates := plotStructureTemplates db @ (row # rows),
                   plotStructureTemplates_seq
                     := plotStructureTemplates_seq db + int (length (t # ts)) \<rparr>)"
    by (simp add: ins rest add.assoc)
  moreover have "list_all2 seeded_from (t # ts) (row # rows)"
    using row(1) rows by simp
  ultimately show ?case by blast
qed

lemma plotTemplates_templateTypes:
  "map new_tpl_templateType plotTemplates
     = [''freytag'', ''hero_journey'', ''three_act'', ''story_circle'', ''fichtean_curve'',
        ''save_the_cat'', ''seven_point'', ''freeform'']"
  by (simp add: plotTemplates_def freytag_template_def hero_journey_template_def
        three_act_template_def story_circle_template_def fichtean_curve_template_def
        save_the_cat_template_def seven_point_template_def freeform_template_def)

lemma plotTemplates_accepted:
  "\<forall>t \<in> set plotTemplates. length (new_tpl_templateType t) \<le> 50"
proof -
  have "\<forall>k \<in> set (map new_tpl_templateType plotTemplates). length k \<le> 50"
    unfolding plotTemplates_templateTypes by simp
  then show ?thesis by simp
qed

lemma plotTemplates_distinct: "distinct (map new_tpl_templateType plotTemplates)"
  unfolding plotTemplates_templateTypes by simp

lemma length_plotTemplates: "length plotTemplates = 8"
  by (simp add: plotTemplates_def)

lemma initPlotTemplates_nonempty:
  "plotStructureTemplates db \<noteq> [] \<Longrightarrow> initPlotTemplates now db = db"
  by (simp add: initPlotTemplates_def initPlotTemplatesFrom_def)

lemma initPlotTemplates_empty:
  assumes "plotStructureTemplates db = []"
  shows "\<exists>rows. initPlotTemplates now db
           = db\<lparr> plotStructureTemplates := rows,
                 plotStructureTemplates_seq := plotStructureTemplates_seq db + 8 \<rparr>
         \<and> list_all2 seeded_from plotTemplates rows"
proof -
  from assms have "\<forall>r \<in> set (plotStructureTemplates db). tpl_id r \<le> plotStructureTemplates_seq db"
    by simp
  from insert_each_accepted [OF plotTemplates_accepted this, of now]
  show ?thesis
    using assms by (auto simp: initPlotTemplates_def initPlotTemplatesFrom_def length_plotTemplates)
qed

lemma fold_initPlotTemplates_nonempty:
  "plotStructureTemplates db \<noteq> [] \<Longrightarrow> fold initPlotTemplates nows db = db"
  by (induction nows) (simp_all add: initPlotTemplates_nonempty)

lemma at_most_one_by_key:
  "distinct (map f xs) \<Longrightarrow> length (filter (\<lambda>x. f x = k) xs) \<le> 1"
proof (induction xs)
  case Nil
  then show ?case by simp
next
  case (Cons x xs)
  show ?case
  proof (cases "f x = k")
    case True
    with Cons.prems have "filter (\<lambda>y. f y = k) xs = []"
      by (auto simp: filter_empty_conv image_iff)
    with True show ?thesis by simp
  next
    case False
    with Cons show ?thesis by simp
  qed
qed

lemma seeded_templateTypes:
  "list_all2 seeded_from templates rows
     \<Longrightarrow> map tpl_templateType rows = map new_tpl_templateType templates"
  by (induction templates rows rule: list_all2_induct) (simp_all add: seeded_from_def)

lemma seeded_rows_at_most_one:
  assumes "list_all2 seeded_from plotTemplates rows"
  shows "length (filter (seeded_from t) rows) \<le> 1"
proof -
  from assms have "map tpl_templateType rows = map new_tpl_templateType plotTemplates"
    by (rule seeded_templateTypes)
  with plotTemplates_distinct have "distinct (map tpl_templateType rows)" by simp
  then have one: "length (filter (\<lambda>r. tpl_templateType r = new_tpl_templateType t) rows) \<le> 1"
    by (rule at_most_one_by_key)
  have "filter (seeded_from t) rows
      = filter (seeded_from t) (filter (\<lambda>r. tpl_templateType r = new_tpl_templateType t) rows)"
    by (auto simp: seeded_from_def intro: filter_cong)
  then have "length (filter (seeded_from t) rows)
      \<le> length (filter (\<lambda>r. tpl_templateType r = new_tpl_templateType t) rows)"
    by (metis length_filter_le)
  with one show ?thesis by simp
qed

text \<open>
  C6. Run on an empty catalog, the seed routine inserts the eight built-in templates, one
  row for each in the order of the array, and changes nothing else; run on a catalog that
  holds a template, it changes nothing. So after any number of runs, one after the other
  from an empty catalog, the catalog holds at most one row for each built-in template.
\<close>

theorem initPlotTemplates_idempotent:
  "(plotStructureTemplates db = [] \<longrightarrow>
      list_all2 seeded_from plotTemplates (plotStructureTemplates (initPlotTemplates now db))
      \<and> length (plotStructureTemplates (initPlotTemplates now db)) = 8
      \<and> plotStructures (initPlotTemplates now db) = plotStructures db
      \<and> plotStructureSections (initPlotTemplates now db) = plotStructureSections db)
   \<and> (plotStructureTemplates db \<noteq> [] \<longrightarrow> initPlotTemplates now db = db)
   \<and> (plotStructureTemplates db = [] \<longrightarrow>
        (\<forall>template \<in> set plotTemplates.
           length (filter (seeded_from template)
                     (plotStructureTemplates (fold initPlotTemplates nows db))) \<le> 1))"
proof (intro conjI impI ballI)
  assume empty: "plotStructureTemplates db = []"
  from initPlotTemplates_empty [OF this, of now]
  obtain rows where run: "initPlotTemplates now db
           = db\<lparr> plotStructureTemplates := rows,
                 plotStructureTemplates_seq := plotStructureTemplates_seq db + 8 \<rparr>"
    and rows: "list_all2 seeded_from plotTemplates rows" by blast
  show "list_all2 seeded_from plotTemplates (plotStructureTemplates (initPlotTemplates now db))"
    using rows by (simp add: run)
  show "length (plotStructureTemplates (initPlotTemplates now db)) = 8"
    using list_all2_lengthD [OF rows] by (simp add: run length_plotTemplates)
  show "plotStructures (initPlotTemplates now db) = plotStructures db"
    by (simp add: run)
  show "plotStructureSections (initPlotTemplates now db) = plotStructureSections db"
    by (simp add: run)
next
  assume "plotStructureTemplates db \<noteq> []"
  then show "initPlotTemplates now db = db" by (rule initPlotTemplates_nonempty)
next
  fix template
  assume empty: "plotStructureTemplates db = []"
  show "length (filter (seeded_from template)
                  (plotStructureTemplates (fold initPlotTemplates nows db))) \<le> 1"
  proof (cases nows)
    case Nil
    with empty show ?thesis by simp
  next
    case (Cons first later)
    from initPlotTemplates_empty [OF empty, of first]
    obtain rows where run: "initPlotTemplates first db
           = db\<lparr> plotStructureTemplates := rows,
                 plotStructureTemplates_seq := plotStructureTemplates_seq db + 8 \<rparr>"
      and rows: "list_all2 seeded_from plotTemplates rows" by blast
    from list_all2_lengthD [OF rows] have "rows \<noteq> []"
      by (auto simp: length_plotTemplates)
    then have "plotStructureTemplates (initPlotTemplates first db) \<noteq> []"
      by (simp add: run)
    then have "fold initPlotTemplates later (initPlotTemplates first db)
                 = initPlotTemplates first db"
      by (rule fold_initPlotTemplates_nonempty)
    then have "plotStructureTemplates (fold initPlotTemplates nows db) = rows"
      by (simp add: Cons run)
    with seeded_rows_at_most_one [OF rows] show ?thesis by simp
  qed
qed

theorem initPlotTemplates_idempotent_witness:
  "plotStructureTemplates empty_store = []
   \<and> length (plotStructureTemplates (initPlotTemplates 1000 empty_store)) = 8
   \<and> initPlotTemplates 2000 (initPlotTemplates 1000 empty_store)
       = initPlotTemplates 1000 empty_store
   \<and> length (filter (seeded_from three_act_template)
               (plotStructureTemplates (fold initPlotTemplates [1000, 2000, 3000] empty_store)))
       \<le> 1"
proof -
  have empty: "plotStructureTemplates empty_store = []"
    by (simp add: empty_store_def)
  have builtin: "three_act_template \<in> set plotTemplates"
    by (simp add: plotTemplates_def)
  note first = initPlotTemplates_idempotent [of empty_store 1000 "[1000, 2000, 3000]"]
  from first empty have eight: "length (plotStructureTemplates (initPlotTemplates 1000 empty_store)) = 8"
    by blast
  then have "plotStructureTemplates (initPlotTemplates 1000 empty_store) \<noteq> []"
    by auto
  with initPlotTemplates_idempotent [of "initPlotTemplates 1000 empty_store" 2000 "[]"]
  have again: "initPlotTemplates 2000 (initPlotTemplates 1000 empty_store)
       = initPlotTemplates 1000 empty_store" by blast
  from first empty builtin
  have "length (filter (seeded_from three_act_template)
               (plotStructureTemplates (fold initPlotTemplates [1000, 2000, 3000] empty_store)))
       \<le> 1" by blast
  with empty eight again show ?thesis by blast
qed

section \<open>Properties of the middleware\<close>









section \<open>Properties of the materializer\<close>

lemma createPlotStructureSection_InrD:
  assumes "createPlotStructureSection now section db = Inr (row, db')"
  shows "db' = db\<lparr> plotStructureSections := plotStructureSections db @ [row],
                   plotStructureSections_seq := plotStructureSections_seq db + 1 \<rparr>"
    and "sec_id row \<notin> sec_id ` set (plotStructureSections db)"
    and "sec_id row = plotStructureSections_seq db + 1"
  using assms
  by (auto simp: createPlotStructureSection_def Let_def split: option.splits if_splits)

lemma createPlotStructure_InrD:
  assumes "createPlotStructure now structure db = Inr (row, db')"
  shows "db' = db\<lparr> plotStructures := plotStructures db @ [row],
                   plotStructures_seq := plotStructures_seq db + 1 \<rparr>"
    and "ps_id row \<notin> ps_id ` set (plotStructures db)"
    and "ps_id row = plotStructures_seq db + 1"
    and "ps_projectId row = new_ps_projectId structure"
    and "ps_templateId row = new_ps_templateId structure"
    and "ps_name row = new_ps_name structure"
  using assms
  by (auto simp: createPlotStructure_def Let_def split: option.splits if_splits)

lemma create_sections_rows:
  assumes "create_sections now pid entries db = (failure, rows, db')"
  shows "plotStructureSections db' = plotStructureSections db @ rows
         \<and> plotStructures db' = plotStructures db
         \<and> plotStructureTemplates db' = plotStructureTemplates db
         \<and> (\<forall>r \<in> set rows. sec_id r \<notin> sec_id ` set (plotStructureSections db))"
  using assms
proof (induction entries arbitrary: db rows failure db')
  case Nil
  then show ?case by simp
next
  case (Cons entry entries)
  show ?case
  proof (cases "createPlotStructureSection now (section_of_entry pid entry) db")
    case (Inl e)
    with Cons.prems show ?thesis by simp
  next
    case (Inr created)
    obtain row db1 where created: "created = (row, db1)" by (cases created)
    obtain failure' rows' db'' where
      rest: "create_sections now pid entries db1 = (failure', rows', db'')"
      by (cases "create_sections now pid entries db1")
    from Cons.prems Inr created rest
    have res: "rows = row # rows'" "db' = db''" by simp_all
    note ins = createPlotStructureSection_InrD [OF Inr [unfolded created]]
    from Cons.IH [OF rest]
    have ih: "plotStructureSections db'' = plotStructureSections db1 @ rows'"
      "plotStructures db'' = plotStructures db1"
      "plotStructureTemplates db'' = plotStructureTemplates db1"
      "\<forall>r \<in> set rows'. sec_id r \<notin> sec_id ` set (plotStructureSections db1)"
      by simp_all
    from ih ins show ?thesis by (simp add: res)
  qed
qed

lemma fold_deletePlotStructureSection:
  "plotStructureSections
     (fold (\<lambda>row d. snd (deletePlotStructureSection (sec_id row) d)) created db)
       = filter (\<lambda>r. sec_id r \<notin> sec_id ` set created) (plotStructureSections db)
   \<and> plotStructures (fold (\<lambda>row d. snd (deletePlotStructureSection (sec_id row) d)) created db)
       = plotStructures db
   \<and> plotStructureTemplates
       (fold (\<lambda>row d. snd (deletePlotStructureSection (sec_id row) d)) created db)
       = plotStructureTemplates db"
proof (induction created arbitrary: db)
  case Nil
  then show ?case by simp
next
  case (Cons row created)
  have "filter (\<lambda>r. sec_id r \<notin> sec_id ` set created)
          (filter (\<lambda>r. sec_id r \<noteq> sec_id row) (plotStructureSections db))
        = filter (\<lambda>r. sec_id r \<notin> sec_id ` set (row # created)) (plotStructureSections db)"
    by (auto intro: filter_cong)
  with Cons.IH [of "snd (deletePlotStructureSection (sec_id row) db)"]
  show ?case by (simp add: deletePlotStructureSection_def)
qed

lemma roll_back_restores:
  assumes "ps_id inst \<notin> ps_id ` set structures"
      and "\<forall>r \<in> set created. sec_id r \<notin> sec_id ` set sections"
      and "plotStructures db2 = structures @ [inst]"
      and "plotStructureSections db2 = sections @ created"
  shows "plotStructures (roll_back inst created db2) = structures
         \<and> plotStructureSections (roll_back inst created db2) = sections
         \<and> plotStructureTemplates (roll_back inst created db2) = plotStructureTemplates db2"
proof -
  let ?d = "snd (deletePlotStructure (ps_id inst) db2)"
  have keep: "filter (\<lambda>r. ps_id r \<noteq> ps_id inst) structures = structures"
    using assms(1) by (auto simp: filter_id_conv image_iff)
  have d: "plotStructures ?d = structures" "plotStructureSections ?d = sections @ created"
    "plotStructureTemplates ?d = plotStructureTemplates db2"
    using assms(3,4) keep by (simp_all add: deletePlotStructure_def)
  have old: "filter (\<lambda>r. sec_id r \<notin> sec_id ` set created) sections = sections"
    using assms(2) by (fastforce simp: filter_id_conv image_iff)
  have new: "filter (\<lambda>r. sec_id r \<notin> sec_id ` set created) created = []"
    by (auto simp: filter_empty_conv)
  from fold_deletePlotStructureSection [of created ?d] d old new
  show ?thesis by (simp add: roll_back_def)
qed

text \<open>
  C2. Whenever \<open>instantiate\<close> fails, be it at the second of three sections, the plot
  structure table, the section table and the catalog are the ones there were before the
  attempt: no row of the attempt is left.
\<close>

theorem instantiate_atomic:
  assumes "instantiate now projectId templateId db = (Inl failure, db')"
  shows "plotStructures db' = plotStructures db
         \<and> plotStructureSections db' = plotStructureSections db
         \<and> plotStructureTemplates db' = plotStructureTemplates db"
proof (cases "getPlotStructureTemplate templateId db")
  case None
  with assms show ?thesis by (simp add: instantiate_def)
next
  case (Some template)
  show ?thesis
  proof (cases "parse_sections (tpl_sections template)")
    case None
    with assms Some show ?thesis by (simp add: instantiate_def)
  next
    case parsed: (Some entries)
    let ?payload = "\<lparr> new_ps_projectId = projectId, new_ps_templateId = templateId,
        new_ps_name = tpl_name template, new_ps_description = None, new_ps_parentId = None,
        new_ps_order = Some (Some (next_order projectId db)) \<rparr>"
    show ?thesis
    proof (cases "createPlotStructure now ?payload db")
      case (Inl e)
      with assms Some parsed show ?thesis by (simp add: instantiate_def)
    next
      case (Inr created)
      obtain inst db1 where created: "created = (inst, db1)" by (cases created)
      note ins = createPlotStructure_InrD [OF Inr [unfolded created]]
      obtain outcome rows db2 where
        loop: "create_sections now (ps_id inst) (sort_key ts_order entries) db1
                 = (outcome, rows, db2)"
        by (cases "create_sections now (ps_id inst) (sort_key ts_order entries) db1")
      from assms Some parsed Inr created loop
      obtain e where failed: "outcome = Some e" and db': "db' = roll_back inst rows db2"
        by (cases outcome) (simp_all add: instantiate_def)
      from create_sections_rows [OF loop] ins(1)
      have after: "plotStructures db2 = plotStructures db @ [inst]"
        "plotStructureSections db2 = plotStructureSections db @ rows"
        "plotStructureTemplates db2 = plotStructureTemplates db"
        "\<forall>r \<in> set rows. sec_id r \<notin> sec_id ` set (plotStructureSections db)"
        by simp_all
      from roll_back_restores [OF ins(2) after(4) after(1) after(2)] after(3)
      show ?thesis by (simp add: db')
    qed
  qed
qed

theorem instantiate_atomic_witness:
  "fst (instantiate 5000 42 2 authored_store) = Inl (StoreFailed StringTooLong)
   \<and> plotStructures (snd (instantiate 5000 42 2 authored_store)) = []
   \<and> plotStructureSections (snd (instantiate 5000 42 2 authored_store)) = []
   \<and> plotStructureSections_seq (snd (instantiate 5000 42 2 authored_store)) = 1"
proof -
  have second: "fst (instantiate 5000 42 2 authored_store) = Inl (StoreFailed StringTooLong)"
    and first: "plotStructureSections_seq (snd (instantiate 5000 42 2 authored_store)) = 1"
    by (simp_all add: instantiate_def authored_store_def getPlotStructureTemplate_def
          next_order_def List.map_filter_def createPlotStructure_def check_PlotStructure_def
          int4_def section_of_entry_def createPlotStructureSection_def
          check_PlotStructureSection_def roll_back_def deletePlotStructure_def
          deletePlotStructureSection_def truthy_object_def Let_def)
  then have "instantiate 5000 42 2 authored_store
      = (Inl (StoreFailed StringTooLong), snd (instantiate 5000 42 2 authored_store))"
    by (simp add: prod_eq_iff)
  from instantiate_atomic [OF this] second first
  show ?thesis by (simp add: authored_store_def)
qed














end
